theory Spec2Isabelle
  imports Main "HOL-Library.DAList"
begin

section \<open>Data model of server.js\<close>

text \<open>
  A JavaScript object used as a dictionary from language names to line counts
  (\<^verbatim>\<open>languages\<close>, \<^verbatim>\<open>languageCounts\<close>) is an association list with
  distinct keys, kept in insertion order: \<^verbatim>\<open>obj[k]\<close> is \<open>DAList.lookup\<close>,
  \<^verbatim>\<open>obj[k] = v\<close> is \<open>DAList.update\<close> (in place for a present key, at the end
  for a new one) and \<^verbatim>\<open>Object.entries(obj)\<close> is \<open>DAList.impl_of\<close>.
  Line counts are JavaScript numbers holding integers; they are modelled as \<open>int\<close>
  (exact below \<open>2^53\<close>). Keys are language names, assumed not to be names of
  properties inherited from \<^verbatim>\<open>Object.prototype\<close>.
\<close>

type_synonym languageCounts = "(string, int) alist"

text \<open>A repository object as returned by the GitHub listing: the three fields the code reads.\<close>

record repo =
  name :: string
  full_name :: string
  pushed_at :: string

text \<open>The in-memory blacklist: \<^verbatim>\<open>let blacklist = { repos: [], paths: [], languages: [] }\<close>.\<close>

record blacklist =
  repos :: "string list"
  paths :: "string list"
  languages :: "string list"

text \<open>
  A value of the cache: \<^verbatim>\<open>{ latestCommit, languages }\<close>. The field
  \<^verbatim>\<open>languages\<close> of an entry is named \<open>entry_languages\<close>, since \<open>languages\<close>
  is the field of the blacklist.
\<close>

record cache_entry =
  latestCommit :: string
  entry_languages :: languageCounts

text \<open>One record of the line counter's answer: \<^verbatim>\<open>{language, linesOfCode}\<close>.\<close>

record languageData =
  language :: string
  linesOfCode :: int

datatype error =
    AxiosError string
  | TypeError string
  | Error string

fun message :: "error \<Rightarrow> string" where
  "message (AxiosError m) = m"
| "message (TypeError m) = m"
| "message (Error m) = m"

text \<open>
  Everything the process does to the outside, in order: the three kinds of HTTP requests
  of axios, the rewrite of cache.json (with the mapping that was serialised and whether
  the write succeeded) and the lines of \<^verbatim>\<open>console.error\<close>.
\<close>

datatype event =
    RateLimitCall
  | ReposCall string
  | LocCall string
  | WriteFile "string \<rightharpoonup> cache_entry" bool
  | ConsoleError string

text \<open>
  An element of the array the line counter answers with: \<^verbatim>\<open>null\<close>, or a record with
  a string \<^verbatim>\<open>language\<close> and a number \<^verbatim>\<open>linesOfCode\<close>, or a value that is not
  \<^verbatim>\<open>null\<close> and has no member \<^verbatim>\<open>language\<close> but a number \<^verbatim>\<open>linesOfCode\<close>, such as
  \<^verbatim>\<open>{"lang": "JS", "linesOfCode": 150}\<close>. An element whose \<^verbatim>\<open>linesOfCode\<close> is
  missing or not a number makes the loop store \<^verbatim>\<open>NaN\<close> or a string instead of a
  count, without throwing either; line counts being integers here, such an element has no
  counterpart in this type.
\<close>

datatype element =
    Null
  | Record languageData
  | Nameless int

text \<open>
  The answer of \<^verbatim>\<open>axios.get\<close> on the line counter: the promise is rejected, or
  \<^verbatim>\<open>response.data\<close> is \<^verbatim>\<open>null\<close>, or it is another value that is not an array
  (a number, a string, an object), or it is an array of elements.
\<close>

datatype loc_response =
    Rejected string
  | NullData
  | NotArray
  | Array "element list"

text \<open>
  The outside world, as functions of the events so far: the rate-limit endpoint (the value
  of \<^verbatim>\<open>rate.remaining\<close>, or the message of the failure), the repository listing of a
  user, the line counter at a URL, and \<^verbatim>\<open>fs.promises.writeFile\<close> on cache.json
  (\<open>None\<close> when it succeeds, the message of the failure otherwise).
\<close>

record world =
  rate_limit_api :: "event list \<Rightarrow> string + int"
  repos_api :: "event list \<Rightarrow> string \<Rightarrow> string + repo list"
  loc_api :: "event list \<Rightarrow> string \<Rightarrow> loc_response"
  writeFile :: "event list \<Rightarrow> string option"

text \<open>
  The process state: the two module-level variables and the events so far. The blacklist
  is a loaded document of the expected shape (three arrays of strings), and every cache
  entry has its two fields. One call runs to its end before the next one starts: the
  interleaving of several requests at the \<^verbatim>\<open>await\<close> points is not modelled.
\<close>

record state =
  cache :: "string \<rightharpoonup> cache_entry"
  blacklist :: blacklist
  trace :: "event list"

definition emit :: "event \<Rightarrow> state \<Rightarrow> state" where
  "emit e s = s\<lparr>trace := trace s @ [e]\<rparr>"

section \<open>saveCacheToFile\<close>

text \<open>
  \<^verbatim>\<open>try { await fs.promises.writeFile(CACHE_FILE, JSON.stringify(cache, null, 2)) }
  catch (err) { console.error("Error saving cache file:", err) }\<close>
\<close>

definition saveCacheToFile :: "world \<Rightarrow> state \<Rightarrow> state" where
  "saveCacheToFile w s =
     (case writeFile w (trace s) of
        None \<Rightarrow> emit (WriteFile (cache s) True) s
      | Some err \<Rightarrow>
          emit (ConsoleError (''Error saving cache file: '' @ err))
            (emit (WriteFile (cache s) False) s))"

section \<open>fetchLanguageCountsForRepo\<close>

text \<open>\<^verbatim>\<open>blacklist.paths.join(",")\<close>\<close>

fun join :: "string list \<Rightarrow> string \<Rightarrow> string" where
  "join [] sep = []"
| "join [p] sep = p"
| "join (p # q # ps) sep = p @ sep @ join (q # ps) sep"

definition loc_url :: "string \<Rightarrow> string \<Rightarrow> string" where
  "loc_url repoName ignoredPaths =
     ''https://api.codetabs.com/v1/loc?github='' @ repoName @ ''&ignored='' @ ignoredPaths"

text \<open>\<^verbatim>\<open>languages[language] || 0\<close>: \<^verbatim>\<open>undefined\<close> and \<open>0\<close> are falsy.\<close>

definition or_zero :: "int option \<Rightarrow> int" where
  "or_zero v = (case v of None \<Rightarrow> 0 | Some n \<Rightarrow> if n = 0 then 0 else n)"

text \<open>
  The body of \<^verbatim>\<open>response.data.forEach\<close>, over the elements left to right. Reading
  \<^verbatim>\<open>languageData.language\<close> of a \<^verbatim>\<open>null\<close> element throws. Of an element
  without \<^verbatim>\<open>language\<close> it gives \<^verbatim>\<open>undefined\<close>, which
  \<^verbatim>\<open>blacklist.languages.includes\<close> does not find among the strings of the blacklist
  and which, used as a property key, is the string \<^verbatim>\<open>undefined\<close>.
\<close>

fun forEach_languageData ::
  "string list \<Rightarrow> element list \<Rightarrow> languageCounts \<Rightarrow> error + languageCounts" where
  "forEach_languageData bl [] langs = Inr langs"
| "forEach_languageData bl (Null # rest) langs =
     Inl (TypeError ''Cannot read properties of null (reading 'language')'')"
| "forEach_languageData bl (Record d # rest) langs =
     forEach_languageData bl rest
       (if language d \<in> set bl then langs
        else DAList.update (language d)
               (or_zero (DAList.lookup langs (language d)) + linesOfCode d) langs)"
| "forEach_languageData bl (Nameless lines # rest) langs =
     forEach_languageData bl rest
       (DAList.update ''undefined''
          (or_zero (DAList.lookup langs ''undefined'') + lines) langs)"

text \<open>The test \<^verbatim>\<open>cache[repoName] && cache[repoName].latestCommit === latestCommit\<close>.\<close>

definition cache_valid :: "state \<Rightarrow> repo \<Rightarrow> bool" where
  "cache_valid s repo =
     (case cache s (full_name repo) of
        None \<Rightarrow> False
      | Some entry \<Rightarrow> latestCommit entry = pushed_at repo)"

text \<open>
  Lines 125 to 144 of server.js, reached when the cache test fails: the request to the line
  counter, the loop, the cache update and the save.
\<close>

definition fetch_fresh :: "world \<Rightarrow> repo \<Rightarrow> state \<Rightarrow> (error + languageCounts) \<times> state" where
  "fetch_fresh w repo s =
     (let repoName = full_name repo;
          ignoredPaths = join (paths (blacklist s)) '','';
          url = loc_url repoName ignoredPaths;
          s1 = emit (LocCall url) s
      in case loc_api w (trace s) url of
           Rejected err \<Rightarrow> (Inl (AxiosError err), s1)
         | NullData \<Rightarrow>
             (Inl (TypeError ''Cannot read properties of null (reading 'forEach')''), s1)
         | NotArray \<Rightarrow> (Inl (TypeError ''response.data.forEach is not a function''), s1)
         | Array data \<Rightarrow>
             (case forEach_languageData (languages (blacklist s)) data DAList.empty of
                Inl err \<Rightarrow> (Inl err, s1)
              | Inr counted \<Rightarrow>
                  (Inr counted,
                   saveCacheToFile w
                     (s1\<lparr>cache := (cache s1)(repoName \<mapsto>
                        \<lparr>latestCommit = pushed_at repo, entry_languages = counted\<rparr>)\<rparr>))))"

definition fetchLanguageCountsForRepo ::
  "world \<Rightarrow> repo \<Rightarrow> state \<Rightarrow> (error + languageCounts) \<times> state" where
  "fetchLanguageCountsForRepo w repo s =
     (case cache s (full_name repo) of
        None \<Rightarrow> fetch_fresh w repo s
      | Some entry \<Rightarrow>
          if latestCommit entry = pushed_at repo
          then (Inr (entry_languages entry), s)
          else fetch_fresh w repo s)"

section \<open>aggregateLanguageCounts\<close>

text \<open>
  The inner loop \<^verbatim>\<open>for (const [language, lines] of Object.entries(repoLanguages))\<close>.
  When \<^verbatim>\<open>!languageCounts[language]\<close> holds (the total is \<^verbatim>\<open>undefined\<close> or
  \<open>0\<close>) the total is first set to \<open>0\<close>, so that \<^verbatim>\<open>+=\<close> reads \<open>0\<close>; otherwise
  \<^verbatim>\<open>+=\<close> reads the total that is there.
\<close>

fun add_entries :: "(string \<times> int) list \<Rightarrow> languageCounts \<Rightarrow> languageCounts" where
  "add_entries [] languageCounts = languageCounts"
| "add_entries ((lang, lines) # rest) languageCounts =
     add_entries rest
       (case DAList.lookup languageCounts lang of
          None \<Rightarrow> DAList.update lang (0 + lines) (DAList.update lang 0 languageCounts)
        | Some current \<Rightarrow>
            if current = 0
            then DAList.update lang (0 + lines) (DAList.update lang 0 languageCounts)
            else DAList.update lang (current + lines) languageCounts)"

text \<open>
  The outer loop \<^verbatim>\<open>for (const repo of repos)\<close>, with the running
  \<^verbatim>\<open>languageCounts\<close>. An error thrown by the awaited call leaves the loop.
\<close>

fun aggregate_from ::
  "world \<Rightarrow> repo list \<Rightarrow> languageCounts \<Rightarrow> state \<Rightarrow> (error + languageCounts) \<times> state" where
  "aggregate_from w [] languageCounts s = (Inr languageCounts, s)"
| "aggregate_from w (repo # rest) languageCounts s =
     (if name repo \<in> set (repos (blacklist s)) then aggregate_from w rest languageCounts s
      else case fetchLanguageCountsForRepo w repo s of
             (Inl err, s1) \<Rightarrow> (Inl err, s1)
           | (Inr repoLanguages, s1) \<Rightarrow>
               aggregate_from w rest
                 (add_entries (DAList.impl_of repoLanguages) languageCounts) s1)"

definition aggregateLanguageCounts ::
  "world \<Rightarrow> repo list \<Rightarrow> state \<Rightarrow> (error + languageCounts) \<times> state" where
  "aggregateLanguageCounts w rs s = aggregate_from w rs DAList.empty s"

section \<open>getRateLimit, getRepositories, countLinesOfCode\<close>

definition getRateLimit :: "world \<Rightarrow> state \<Rightarrow> (error + int) \<times> state" where
  "getRateLimit w s =
     (case rate_limit_api w (trace s) of
        Inl err \<Rightarrow>
          (Inl (AxiosError err),
           emit (ConsoleError (''Error fetching rate limit: '' @ err)) (emit RateLimitCall s))
      | Inr remaining \<Rightarrow> (Inr remaining, emit RateLimitCall s))"

definition getRepositories :: "world \<Rightarrow> string \<Rightarrow> state \<Rightarrow> (error + repo list) \<times> state" where
  "getRepositories w username s =
     (case repos_api w (trace s) username of
        Inl err \<Rightarrow>
          (Inl (AxiosError err),
           emit (ConsoleError (''Error fetching repositories: '' @ err))
             (emit (ReposCall username) s))
      | Inr rs \<Rightarrow> (Inr rs, emit (ReposCall username) s))"

text \<open>
  The optional parameter \<^verbatim>\<open>repoName\<close> is \<open>None\<close> when the caller leaves it out;
  \<^verbatim>\<open>if (repoName)\<close> is false for \<^verbatim>\<open>undefined\<close> and for the empty string.
\<close>

definition countLinesOfCode ::
  "world \<Rightarrow> string \<Rightarrow> string option \<Rightarrow> state \<Rightarrow> (error + languageCounts) \<times> state" where
  "countLinesOfCode w username repoName s =
     (case getRepositories w username s of
        (Inl err, s1) \<Rightarrow> (Inl err, s1)
      | (Inr rs, s1) \<Rightarrow>
          (case repoName of
             None \<Rightarrow> aggregateLanguageCounts w rs s1
           | Some n \<Rightarrow>
               if n \<noteq> [] then
                 (case find (\<lambda>r. name r = n) rs of
                    Some repo \<Rightarrow> fetchLanguageCountsForRepo w repo s1
                  | None \<Rightarrow> (Inl (Error (''Repository '' @ n @ '' not found'')), s1))
               else aggregateLanguageCounts w rs s1))"

section \<open>The two routes\<close>

datatype body =
    ErrorBody string
  | Counts languageCounts

record response =
  status :: nat
  body :: body

text \<open>
  The part of both handlers after the rate-limit test, inside the same \<^verbatim>\<open>try\<close>:
  \<^verbatim>\<open>res.json(totalLines)\<close> answers with status 200, the \<^verbatim>\<open>catch\<close> with 500 and
  \<^verbatim>\<open>error.message\<close>.
\<close>

definition respond :: "(error + languageCounts) \<times> state \<Rightarrow> response \<times> state" where
  "respond r =
     (case r of
        (Inl err, s) \<Rightarrow> (\<lparr>status = 500, body = ErrorBody (message err)\<rparr>, s)
      | (Inr totalLines, s) \<Rightarrow> (\<lparr>status = 200, body = Counts totalLines\<rparr>, s))"

definition rate_limited :: response where
  "rate_limited = \<lparr>status = 429, body = ErrorBody ''Rate limit exceeded. Try again later.''\<rparr>"

text \<open>\<^verbatim>\<open>app.get("/languages/:username", ...)\<close>\<close>

definition get_languages_username :: "world \<Rightarrow> string \<Rightarrow> state \<Rightarrow> response \<times> state" where
  "get_languages_username w username s =
     (case getRateLimit w s of
        (Inl err, s1) \<Rightarrow> (\<lparr>status = 500, body = ErrorBody (message err)\<rparr>, s1)
      | (Inr remaining, s1) \<Rightarrow>
          if remaining = 0 then (rate_limited, s1)
          else respond (countLinesOfCode w username None s1))"

text \<open>\<^verbatim>\<open>app.get("/languages/:username/:repoName", ...)\<close>\<close>

definition get_languages_username_repoName ::
  "world \<Rightarrow> string \<Rightarrow> string \<Rightarrow> state \<Rightarrow> response \<times> state" where
  "get_languages_username_repoName w username repoName s =
     (case getRateLimit w s of
        (Inl err, s1) \<Rightarrow> (\<lparr>status = 500, body = ErrorBody (message err)\<rparr>, s1)
      | (Inr remaining, s1) \<Rightarrow>
          if remaining = 0 then (rate_limited, s1)
          else respond (countLinesOfCode w username (Some repoName) s1))"

section \<open>loadDataFromFile\<close>

text \<open>
  A value produced by \<^verbatim>\<open>JSON.parse\<close>; an object is the list of its members, with
  distinct names.
\<close>

datatype json =
    JNull
  | JBool bool
  | JNumber int
  | JString string
  | JArray "json list"
  | JObject "(string \<times> json) list"

text \<open>
  What the code can observe of a file: \<^verbatim>\<open>fs.existsSync\<close> is false, or
  \<^verbatim>\<open>fs.readFileSync\<close> throws, or \<^verbatim>\<open>JSON.parse\<close> throws on its text, or the
  text parses to a value.
\<close>

datatype file_state =
    Missing
  | Unreadable string
  | Unparsable string
  | Document json

fun truthy :: "json \<Rightarrow> bool" where
  "truthy JNull = False"
| "truthy (JBool b) = b"
| "truthy (JNumber n) = (n \<noteq> 0)"
| "truthy (JString s) = (s \<noteq> [])"
| "truthy (JArray xs) = True"
| "truthy (JObject ms) = True"

fun typeof :: "json \<Rightarrow> string" where
  "typeof JNull = ''object''"
| "typeof (JBool b) = ''boolean''"
| "typeof (JNumber n) = ''number''"
| "typeof (JString s) = ''string''"
| "typeof (JArray xs) = ''object''"
| "typeof (JObject ms) = ''object''"

text \<open>
  The result of a load: the value returned (or the error thrown by
  \<^verbatim>\<open>fs.writeFileSync\<close>, which no \<^verbatim>\<open>try\<close> encloses), the file afterwards and the
  lines of \<^verbatim>\<open>console.error\<close>. The argument \<open>write_error\<close> is \<open>None\<close> when
  \<^verbatim>\<open>fs.writeFileSync\<close> succeeds.
\<close>

record loaded =
  returned :: "error + json"
  file_after :: file_state
  logged :: "string list"

definition loadDataFromFile :: "string \<Rightarrow> json \<Rightarrow> file_state \<Rightarrow> string option \<Rightarrow> loaded" where
  "loadDataFromFile filePath defaultValue f write_error =
     (case f of
        Missing \<Rightarrow>
          (case write_error of
             None \<Rightarrow>
               \<lparr>returned = Inr defaultValue, file_after = Document defaultValue, logged = []\<rparr>
           | Some err \<Rightarrow> \<lparr>returned = Inl (Error err), file_after = Missing, logged = []\<rparr>)
      | Unreadable err \<Rightarrow>
          \<lparr>returned = Inr defaultValue, file_after = f,
           logged = [''Error reading '' @ filePath @ '': '' @ err]\<rparr>
      | Unparsable err \<Rightarrow>
          \<lparr>returned = Inr defaultValue, file_after = f,
           logged = [''Error reading '' @ filePath @ '': '' @ err]\<rparr>
      | Document data \<Rightarrow>
          if truthy data \<and> typeof data = ''object''
          then \<lparr>returned = Inr data, file_after = f, logged = []\<rparr>
          else \<lparr>returned = Inr defaultValue, file_after = f, logged = []\<rparr>)"

text \<open>The initial value of \<^verbatim>\<open>blacklist\<close>, which is the default passed at line 54.\<close>

definition default_blacklist :: json where
  "default_blacklist =
     JObject [(''repos'', JArray []), (''paths'', JArray []), (''languages'', JArray [])]"

text \<open>\<^verbatim>\<open>blacklist = loadDataFromFile(BLACKLIST_FILE, blacklist)\<close>\<close>

definition load_blacklist :: "string \<Rightarrow> file_state \<Rightarrow> string option \<Rightarrow> loaded" where
  "load_blacklist BLACKLIST_FILE f write_error =
     loadDataFromFile BLACKLIST_FILE default_blacklist f write_error"

section \<open>Notions used to state the properties\<close>

text \<open>The URL that \<^verbatim>\<open>fetchLanguageCountsForRepo\<close> requests for a repository.\<close>

definition request_url :: "state \<Rightarrow> repo \<Rightarrow> string" where
  "request_url s repo = loc_url (full_name repo) (join (paths (blacklist s)) '','')"

text \<open>The requests to the line counter in a trace, in order.\<close>

fun loc_calls :: "event list \<Rightarrow> string list" where
  "loc_calls [] = []"
| "loc_calls (LocCall url # es) = url # loc_calls es"
| "loc_calls (e # es) = loc_calls es"

text \<open>
  The mapping the specification asks for, in its words: per language, the sum of the
  counts of the collaborator's records of that language, without the languages of the
  exclusion set.
\<close>

definition spec_counts :: "string list \<Rightarrow> languageData list \<Rightarrow> string \<Rightarrow> int option" where
  "spec_counts excluded records l =
     (if l \<in> language ` set records \<and> l \<notin> set excluded
      then Some (sum_list (map linesOfCode (filter (\<lambda>d. language d = l) records)))
      else None)"

text \<open>
  A malformed answer, in the words of the specification: the request succeeded, and
  \<^verbatim>\<open>response.data\<close> is not a sequence of \<^verbatim>\<open>{language, linesOfCode}\<close> records.
\<close>

fun is_record :: "element \<Rightarrow> bool" where
  "is_record Null = False"
| "is_record (Record d) = True"
| "is_record (Nameless lines) = False"

fun malformed_response :: "loc_response \<Rightarrow> bool" where
  "malformed_response (Rejected err) = False"
| "malformed_response NullData = True"
| "malformed_response NotArray = True"
| "malformed_response (Array data) = list_ex (\<lambda>x. \<not> is_record x) data"

text \<open>
  The answers on which lines 127 to 138 throw: the request is rejected, or
  \<^verbatim>\<open>response.data\<close> has no \<^verbatim>\<open>forEach\<close>, or the array has a \<^verbatim>\<open>null\<close>
  element.
\<close>

fun throwing_response :: "loc_response \<Rightarrow> bool" where
  "throwing_response (Rejected err) = True"
| "throwing_response NullData = True"
| "throwing_response NotArray = True"
| "throwing_response (Array data) = (Null \<in> set data)"


section \<open>A concrete scenario\<close>

text \<open>
  The repository \<^verbatim>\<open>demo/app\<close> with a cached entry of 100 lines of JS, pushed at the
  given time; a line counter that answers 150 lines of JS and 50 of Go; the language Go on
  the blacklist.
\<close>

definition demo_repo :: "string \<Rightarrow> repo" where
  "demo_repo t = \<lparr>name = ''app'', full_name = ''demo/app'', pushed_at = t\<rparr>"

text \<open>A second repository, with a valid cache entry, and a third one never seen before.\<close>

definition lib_repo :: repo where
  "lib_repo = \<lparr>name = ''lib'', full_name = ''demo/lib'', pushed_at = ''2023-06-01T00:00Z''\<rparr>"

definition web_repo :: repo where
  "web_repo = \<lparr>name = ''web'', full_name = ''demo/web'', pushed_at = ''2024-03-01T00:00Z''\<rparr>"

definition demo_repos :: "repo list" where
  "demo_repos = [demo_repo ''2024-01-01T00:00Z'', lib_repo, web_repo]"

definition demo_records :: "languageData list" where
  "demo_records =
     [\<lparr>language = ''JS'', linesOfCode = 150\<rparr>, \<lparr>language = ''Go'', linesOfCode = 50\<rparr>]"

definition demo_world :: world where
  "demo_world =
     \<lparr>rate_limit_api = (\<lambda>_. Inr 10),
      repos_api = (\<lambda>_ _. Inr demo_repos),
      loc_api = (\<lambda>_ _. Array (map Record demo_records)),
      writeFile = (\<lambda>_. None)\<rparr>"

definition demo_entry :: cache_entry where
  "demo_entry =
     \<lparr>latestCommit = ''2024-01-01T00:00Z'',
      entry_languages = DAList.update ''JS'' 100 DAList.empty\<rparr>"

text \<open>The same repository after a later push: its cached entry is stale.\<close>

definition stale :: repo where
  "stale = demo_repo ''2024-02-01T00:00Z''"

definition lib_entry :: cache_entry where
  "lib_entry =
     \<lparr>latestCommit = ''2023-06-01T00:00Z'',
      entry_languages = DAList.update ''Python'' 70 DAList.empty\<rparr>"

definition demo_state :: state where
  "demo_state =
     \<lparr>cache = [''demo/app'' \<mapsto> demo_entry, ''demo/lib'' \<mapsto> lib_entry],
      blacklist = \<lparr>repos = [], paths = [], languages = [''Go'']\<rparr>,
      trace = []\<rparr>"

text \<open>A line counter whose answer has a \<^verbatim>\<open>null\<close> element after a good record.\<close>

definition broken_world :: world where
  "broken_world =
     demo_world\<lparr>loc_api :=
       (\<lambda>_ _. Array [Record \<lparr>language = ''JS'', linesOfCode = 150\<rparr>, Null])\<rparr>"

text \<open>
  A line counter that names the language member differently:
  \<^verbatim>\<open>[{"lang": "JS", "linesOfCode": 150}]\<close>.
\<close>

definition nameless_world :: world where
  "nameless_world = demo_world\<lparr>loc_api := (\<lambda>_ _. Array [Nameless 150])\<rparr>"

text \<open>A file system on which every write of cache.json fails.\<close>

definition readonly_world :: world where
  "readonly_world = demo_world\<lparr>writeFile := (\<lambda>_. Some ''EACCES: permission denied'')\<rparr>"

text \<open>The same state with the repository \<^verbatim>\<open>lib\<close> and two paths on the blacklist.\<close>

definition excluding_state :: state where
  "excluding_state =
     demo_state\<lparr>blacklist :=
       \<lparr>repos = [''lib''], paths = [''node_modules'', ''dist''], languages = [''Go'']\<rparr>\<rparr>"

text \<open>A rate-limit endpoint that reports no remaining budget.\<close>

definition exhausted_world :: world where
  "exhausted_world = demo_world\<lparr>rate_limit_api := (\<lambda>_. Inr 0)\<rparr>"

section \<open>Blacklist documents\<close>

text \<open>
  The shape the specification asks of a blacklist document: an object whose members
  \<^verbatim>\<open>repos\<close>, \<^verbatim>\<open>paths\<close> and \<^verbatim>\<open>languages\<close> are arrays.
\<close>

definition array_member :: "(string \<times> json) list \<Rightarrow> string \<Rightarrow> bool" where
  "array_member ms k = (case map_of ms k of Some (JArray xs) \<Rightarrow> True | _ \<Rightarrow> False)"

definition well_formed_blacklist :: "json \<Rightarrow> bool" where
  "well_formed_blacklist j =
     (case j of
        JObject ms \<Rightarrow>
          array_member ms ''repos'' \<and> array_member ms ''paths'' \<and> array_member ms ''languages''
      | _ \<Rightarrow> False)"

text \<open>
  A blacklist.json of the format of the earlier version of the server, which had no
  \<^verbatim>\<open>languages\<close>: \<^verbatim>\<open>{"repos": ["lib"], "paths": []}\<close>.
\<close>

definition old_format_blacklist :: json where
  "old_format_blacklist = JObject [(''repos'', JArray [JString ''lib'']), (''paths'', JArray [])]"

section \<open>Basic facts\<close>

lemma or_zero_simps [simp]: "or_zero None = 0" "or_zero (Some n) = n"
  by (simp_all add: or_zero_def)

lemma loc_calls_append [simp]: "loc_calls (xs @ ys) = loc_calls xs @ loc_calls ys"
  by (induction xs rule: loc_calls.induct) simp_all

lemma filter_absent_language:
  "l \<notin> language ` set ds \<Longrightarrow> filter (\<lambda>d. language d = l) ds = []"
  by (induction ds) auto

lemma forEach_lookup:
  "\<exists>r. forEach_languageData bl (map Record ds) acc = Inr r \<and>
     (\<forall>l. DAList.lookup r l =
        (if l \<in> set bl \<or> l \<notin> language ` set ds then DAList.lookup acc l
         else Some (or_zero (DAList.lookup acc l)
                    + sum_list (map linesOfCode (filter (\<lambda>d. language d = l) ds)))))"
proof (induction ds arbitrary: acc)
  case Nil
  then show ?case by simp
next
  case (Cons d ds)
  show ?case
  proof (cases "language d \<in> set bl")
    case True
    from Cons.IH [of acc] obtain r where
      r: "forEach_languageData bl (map Record ds) acc = Inr r"
      and l: "\<And>l. DAList.lookup r l =
        (if l \<in> set bl \<or> l \<notin> language ` set ds then DAList.lookup acc l
         else Some (or_zero (DAList.lookup acc l)
                    + sum_list (map linesOfCode (filter (\<lambda>d. language d = l) ds))))"
      by blast
    show ?thesis using True r l by auto
  next
    case False
    define acc' where "acc' = DAList.update (language d)
               (or_zero (DAList.lookup acc (language d)) + linesOfCode d) acc"
    from Cons.IH [of acc'] obtain r where
      r: "forEach_languageData bl (map Record ds) acc' = Inr r"
      and l: "\<And>l. DAList.lookup r l =
        (if l \<in> set bl \<or> l \<notin> language ` set ds then DAList.lookup acc' l
         else Some (or_zero (DAList.lookup acc' l)
                    + sum_list (map linesOfCode (filter (\<lambda>d. language d = l) ds))))"
      by blast
    have step: "forEach_languageData bl (map Record (d # ds)) acc = Inr r"
      using False r by (simp add: acc'_def)
    have "DAList.lookup r l =
        (if l \<in> set bl \<or> l \<notin> language ` set (d # ds) then DAList.lookup acc l
         else Some (or_zero (DAList.lookup acc l)
                    + sum_list (map linesOfCode (filter (\<lambda>d. language d = l) (d # ds)))))" for l
      using False l [of l] by (cases "l = language d") (auto simp: acc'_def filter_absent_language)
    with step show ?thesis by blast
  qed
qed

lemma forEach_counts:
  "\<exists>r. forEach_languageData bl (map Record ds) DAList.empty = Inr r \<and>
        DAList.lookup r = spec_counts bl ds"
proof -
  from forEach_lookup [of bl ds DAList.empty] obtain r where
    r: "forEach_languageData bl (map Record ds) DAList.empty = Inr r"
    and l: "\<And>l. DAList.lookup r l =
        (if l \<in> set bl \<or> l \<notin> language ` set ds then DAList.lookup DAList.empty l
         else Some (or_zero (DAList.lookup DAList.empty l)
                    + sum_list (map linesOfCode (filter (\<lambda>d. language d = l) ds))))"
    by blast
  have "DAList.lookup r = spec_counts bl ds"
    by (rule ext) (auto simp: l spec_counts_def)
  with r show ?thesis by blast
qed

lemma forEach_null:
  "Null \<in> set data \<Longrightarrow>
   forEach_languageData bl data acc
     = Inl (TypeError ''Cannot read properties of null (reading 'language')'')"
proof (induction data arbitrary: acc)
  case Nil
  then show ?case by simp
next
  case (Cons x data)
  then show ?case by (cases x) auto
qed

lemma fetch_miss:
  "\<not> cache_valid s repo \<Longrightarrow> fetchLanguageCountsForRepo w repo s = fetch_fresh w repo s"
  by (auto simp: cache_valid_def fetchLanguageCountsForRepo_def split: option.splits)

lemma fetch_hit:
  "cache_valid s repo \<Longrightarrow> snd (fetchLanguageCountsForRepo w repo s) = s"
  by (auto simp: cache_valid_def fetchLanguageCountsForRepo_def split: option.splits)

lemma fetch_fresh_success:
  assumes "loc_api w (trace s) (request_url s repo) = Array data"
    and "forEach_languageData (languages (blacklist s)) data DAList.empty = Inr counted"
  shows "fetch_fresh w repo s =
     (Inr counted,
      saveCacheToFile w
        ((emit (LocCall (request_url s repo)) s)\<lparr>cache := (cache s)(full_name repo \<mapsto>
              \<lparr>latestCommit = pushed_at repo, entry_languages = counted\<rparr>)\<rparr>))"
proof -
  have "cache (emit (LocCall (request_url s repo)) s) = cache s" by (simp add: emit_def)
  with assms show ?thesis by (simp add: fetch_fresh_def request_url_def Let_def)
qed

lemma fetch_fresh_failure:
  assumes "throwing_response (loc_api w (trace s) (request_url s repo))"
  shows "fetch_fresh w repo s =
     (Inl (case loc_api w (trace s) (request_url s repo) of
             Rejected err \<Rightarrow> AxiosError err
           | NullData \<Rightarrow> TypeError ''Cannot read properties of null (reading 'forEach')''
           | NotArray \<Rightarrow> TypeError ''response.data.forEach is not a function''
           | Array data \<Rightarrow> TypeError ''Cannot read properties of null (reading 'language')''),
      emit (LocCall (request_url s repo)) s)"
proof (cases "loc_api w (trace s) (request_url s repo)")
  case (Rejected err)
  then show ?thesis by (simp add: fetch_fresh_def request_url_def Let_def)
next
  case NullData
  then show ?thesis by (simp add: fetch_fresh_def request_url_def Let_def)
next
  case NotArray
  then show ?thesis by (simp add: fetch_fresh_def request_url_def Let_def)
next
  case (Array data)
  with assms have "Null \<in> set data" by simp
  from forEach_null [OF this]
  have "forEach_languageData (languages (blacklist s)) data DAList.empty
          = Inl (TypeError ''Cannot read properties of null (reading 'language')'')" .
  with Array show ?thesis by (simp add: fetch_fresh_def request_url_def Let_def)
qed

lemma saveCacheToFile_cache [simp]: "cache (saveCacheToFile w s) = cache s"
  by (simp add: saveCacheToFile_def emit_def split: option.splits)

lemma saveCacheToFile_blacklist [simp]: "blacklist (saveCacheToFile w s) = blacklist s"
  by (simp add: saveCacheToFile_def emit_def split: option.splits)

lemma saveCacheToFile_loc_calls [simp]:
  "loc_calls (trace (saveCacheToFile w s)) = loc_calls (trace s)"
  by (simp add: saveCacheToFile_def emit_def split: option.splits)

lemma fetch_fresh_calls_once:
  "loc_calls (trace (snd (fetch_fresh w repo s))) = loc_calls (trace s) @ [request_url s repo]"
  by (simp add: fetch_fresh_def request_url_def Let_def emit_def
      split: loc_response.splits sum.splits)

lemma fetch_fresh_cache:
  "cache (snd (fetch_fresh w repo s)) =
     (case fst (fetch_fresh w repo s) of
        Inl err \<Rightarrow> cache s
      | Inr counted \<Rightarrow> (cache s)(full_name repo \<mapsto>
            \<lparr>latestCommit = pushed_at repo, entry_languages = counted\<rparr>))"
  by (simp add: fetch_fresh_def Let_def emit_def split: loc_response.splits sum.splits)

lemma fetch_on_valid_entry:
  assumes "cache s (full_name repo) = Some entry"
    and "latestCommit entry = pushed_at repo"
  shows "fetchLanguageCountsForRepo w repo s = (Inr (entry_languages entry), s)"
  using assms by (simp add: fetchLanguageCountsForRepo_def)

lemma fetch_miss_success:
  assumes "\<not> cache_valid s repo"
    and "loc_api w (trace s) (request_url s repo) = Array (map Record records)"
  obtains counted where
    "DAList.lookup counted = spec_counts (languages (blacklist s)) records"
    and "fetchLanguageCountsForRepo w repo s =
      (Inr counted,
       saveCacheToFile w
         ((emit (LocCall (request_url s repo)) s)\<lparr>cache := (cache s)(full_name repo \<mapsto>
              \<lparr>latestCommit = pushed_at repo, entry_languages = counted\<rparr>)\<rparr>))"
proof -
  from forEach_counts [of "languages (blacklist s)" records] obtain counted where
    c: "forEach_languageData (languages (blacklist s)) (map Record records) DAList.empty
          = Inr counted"
    and l: "DAList.lookup counted = spec_counts (languages (blacklist s)) records"
    by blast
  from assms(1) have "fetchLanguageCountsForRepo w repo s =
      (Inr counted,
       saveCacheToFile w
         ((emit (LocCall (request_url s repo)) s)\<lparr>cache := (cache s)(full_name repo \<mapsto>
              \<lparr>latestCommit = pushed_at repo, entry_languages = counted\<rparr>)\<rparr>))"
    by (simp add: fetch_miss fetch_fresh_success [OF assms(2) c])
  with l that show thesis by blast
qed

lemma demo_world_loc: "loc_api demo_world t u = Array (map Record demo_records)"
  by (simp add: demo_world_def)

lemma stale_miss: "\<not> cache_valid demo_state stale"
  by (simp add: cache_valid_def demo_state_def stale_def demo_repo_def demo_entry_def)

lemma stale_url:
  "request_url demo_state stale = ''https://api.codetabs.com/v1/loc?github=demo/app&ignored=''"
  by (simp add: request_url_def loc_url_def demo_state_def stale_def demo_repo_def)



lemma fetch_blacklist [simp]:
  "blacklist (snd (fetchLanguageCountsForRepo w repo s)) = blacklist s"
  by (simp add: fetchLanguageCountsForRepo_def fetch_fresh_def Let_def emit_def
      split: option.splits loc_response.splits sum.splits)

lemma aggregate_skips_excluded:
  "name r \<in> set (repos (blacklist s)) \<Longrightarrow>
   aggregate_from w (before @ r # after) acc s = aggregate_from w (before @ after) acc s"
proof (induction before arbitrary: acc s)
  case Nil
  then show ?case by simp
next
  case (Cons x xs)
  show ?case
  proof (cases "name x \<in> set (repos (blacklist s))")
    case True
    with Cons show ?thesis by simp
  next
    case False
    obtain res s1 where f: "fetchLanguageCountsForRepo w x s = (res, s1)"
      by (cases "fetchLanguageCountsForRepo w x s")
    then have "blacklist s1 = blacklist s"
      using fetch_blacklist [of w x s] by simp
    with Cons.prems have "name r \<in> set (repos (blacklist s1))" by simp
    from Cons.IH [OF this] False f show ?thesis
      by (cases res) simp_all
  qed
qed





lemma excluding_names: "name lib_repo \<in> set (repos (blacklist excluding_state))"
  by (simp add: excluding_state_def lib_repo_def)

section \<open>The resolver on a valid cache entry\<close>

text \<open>
  Claim C1. When the cache holds an entry for the repository's \<^verbatim>\<open>full_name\<close> whose
  \<^verbatim>\<open>latestCommit\<close> equals the repository's \<^verbatim>\<open>pushed_at\<close>,
  \<^verbatim>\<open>fetchLanguageCountsForRepo\<close> returns exactly the stored languages and leaves the
  whole state as it was: the trace gains no event (no request to the line counter, no
  write of the cache file) and the cache is the same.
\<close>

theorem cache_hit_returns_stored:
  assumes "cache s (full_name repo) = Some entry"
    and "latestCommit entry = pushed_at repo"
  shows "fetchLanguageCountsForRepo w repo s = (Inr (entry_languages entry), s)"
  using assms by (rule fetch_on_valid_entry)

theorem cache_hit_returns_stored_witness:
  "cache demo_state (full_name (demo_repo ''2024-01-01T00:00Z'')) = Some demo_entry
   \<and> latestCommit demo_entry = pushed_at (demo_repo ''2024-01-01T00:00Z'')
   \<and> fetchLanguageCountsForRepo demo_world (demo_repo ''2024-01-01T00:00Z'') demo_state
       = (Inr (DAList.update ''JS'' 100 DAList.empty), demo_state)"
proof -
  have a: "cache demo_state (full_name (demo_repo ''2024-01-01T00:00Z'')) = Some demo_entry"
    by (simp add: demo_state_def demo_repo_def)
  have b: "latestCommit demo_entry = pushed_at (demo_repo ''2024-01-01T00:00Z'')"
    by (simp add: demo_entry_def demo_repo_def)
  show ?thesis
    using a b cache_hit_returns_stored [OF a b, of demo_world]
    by (simp add: demo_entry_def)
qed

section \<open>The resolver on a missing or stale entry\<close>

text \<open>
  Claim C2. When the cache has no entry for the repository or one whose
  \<^verbatim>\<open>latestCommit\<close> differs from \<^verbatim>\<open>pushed_at\<close>, resolving it requests the line
  counter exactly once (the trace gains one request, for the repository's URL, whatever
  the answer). When the answer is an array of records, the result maps each language to
  the sum of its records' counts and has no language of the blacklist, and the cache
  afterwards is the old cache with the repository's entry overwritten by that mapping and
  the current \<^verbatim>\<open>pushed_at\<close>.
\<close>

theorem cache_miss_counts_and_stores:
  assumes "\<not> cache_valid s repo"
  shows "loc_calls (trace (snd (fetchLanguageCountsForRepo w repo s)))
           = loc_calls (trace s) @ [request_url s repo]
     \<and> (\<forall>records. loc_api w (trace s) (request_url s repo) = Array (map Record records) \<longrightarrow>
          (\<exists>counted s'. fetchLanguageCountsForRepo w repo s = (Inr counted, s')
             \<and> DAList.lookup counted = spec_counts (languages (blacklist s)) records
             \<and> cache s' = (cache s)(full_name repo \<mapsto>
                  \<lparr>latestCommit = pushed_at repo, entry_languages = counted\<rparr>)))"
proof (intro conjI allI impI)
  show "loc_calls (trace (snd (fetchLanguageCountsForRepo w repo s)))
           = loc_calls (trace s) @ [request_url s repo]"
    using assms by (simp add: fetch_miss fetch_fresh_calls_once)
next
  fix records
  assume resp: "loc_api w (trace s) (request_url s repo) = Array (map Record records)"
  from fetch_miss_success [OF assms resp] obtain counted where
    l: "DAList.lookup counted = spec_counts (languages (blacklist s)) records"
    and f: "fetchLanguageCountsForRepo w repo s =
      (Inr counted,
       saveCacheToFile w
         ((emit (LocCall (request_url s repo)) s)\<lparr>cache := (cache s)(full_name repo \<mapsto>
              \<lparr>latestCommit = pushed_at repo, entry_languages = counted\<rparr>)\<rparr>))"
    by blast
  show "\<exists>counted s'. fetchLanguageCountsForRepo w repo s = (Inr counted, s')
             \<and> DAList.lookup counted = spec_counts (languages (blacklist s)) records
             \<and> cache s' = (cache s)(full_name repo \<mapsto>
                  \<lparr>latestCommit = pushed_at repo, entry_languages = counted\<rparr>)"
    using l f by simp
qed

theorem cache_miss_counts_and_stores_witness:
  "\<not> cache_valid demo_state stale
   \<and> loc_api demo_world (trace demo_state) (request_url demo_state stale)
        = Array (map Record demo_records)
   \<and> loc_calls (trace (snd (fetchLanguageCountsForRepo demo_world stale demo_state)))
        = [''https://api.codetabs.com/v1/loc?github=demo/app&ignored='']
   \<and> (\<exists>counted s'. fetchLanguageCountsForRepo demo_world stale demo_state = (Inr counted, s')
         \<and> DAList.lookup counted ''JS'' = Some 150
         \<and> DAList.lookup counted ''Go'' = None
         \<and> cache s' ''demo/app'' =
              Some \<lparr>latestCommit = ''2024-02-01T00:00Z'', entry_languages = counted\<rparr>)"
proof -
  note t = cache_miss_counts_and_stores [OF stale_miss, of demo_world]
  from t have calls:
    "loc_calls (trace (snd (fetchLanguageCountsForRepo demo_world stale demo_state)))
        = loc_calls (trace demo_state) @ [request_url demo_state stale]"
    by blast
  from t demo_world_loc obtain counted s' where
    f: "fetchLanguageCountsForRepo demo_world stale demo_state = (Inr counted, s')"
    and l: "DAList.lookup counted = spec_counts (languages (blacklist demo_state)) demo_records"
    and c: "cache s' = (cache demo_state)(full_name stale \<mapsto>
                  \<lparr>latestCommit = pushed_at stale, entry_languages = counted\<rparr>)"
    by blast
  have js: "DAList.lookup counted ''JS'' = Some 150"
    and go: "DAList.lookup counted ''Go'' = None"
    by (simp_all add: l spec_counts_def demo_state_def demo_records_def)
  have e: "cache s' ''demo/app'' =
              Some \<lparr>latestCommit = ''2024-02-01T00:00Z'', entry_languages = counted\<rparr>"
    by (simp add: c stale_def demo_repo_def)
  have "loc_calls (trace demo_state) @ [request_url demo_state stale]
        = [''https://api.codetabs.com/v1/loc?github=demo/app&ignored='']"
    by (simp add: stale_url) (simp add: demo_state_def)
  with calls have
    "loc_calls (trace (snd (fetchLanguageCountsForRepo demo_world stale demo_state)))
        = [''https://api.codetabs.com/v1/loc?github=demo/app&ignored='']"
    by (rule trans)
  with js go e show ?thesis using stale_miss demo_world_loc f by blast
qed

section \<open>Failure of the line counter\<close>

text \<open>
  Claim C7 says that a failed call of the line counter, by a transport error or by a
  malformed response, leaves the resolver with an error and the cache unchanged. That
  holds for the answers on which the code throws, and not for every malformed response:
  the loop reads \<^verbatim>\<open>language\<close> and \<^verbatim>\<open>linesOfCode\<close> without checking them, so the
  answer \<^verbatim>\<open>[{"lang": "JS", "linesOfCode": 150}]\<close> for the stale repository is counted
  under the key \<^verbatim>\<open>undefined\<close>, returned as a success, stored in the cache and saved.
\<close>

theorem malformed_answer_is_stored:
  "malformed_response (loc_api nameless_world (trace demo_state) (request_url demo_state stale))
   \<and> \<not> cache_valid demo_state stale
   \<and> fst (fetchLanguageCountsForRepo nameless_world stale demo_state)
       = Inr (DAList.update ''undefined'' 150 DAList.empty)
   \<and> cache (snd (fetchLanguageCountsForRepo nameless_world stale demo_state)) ''demo/app''
       = Some \<lparr>latestCommit = ''2024-02-01T00:00Z'',
               entry_languages = DAList.update ''undefined'' 150 DAList.empty\<rparr>
   \<and> cache (snd (fetchLanguageCountsForRepo nameless_world stale demo_state)) ''demo/app''
       \<noteq> cache demo_state ''demo/app''
   \<and> trace (snd (fetchLanguageCountsForRepo nameless_world stale demo_state))
       = [LocCall ''https://api.codetabs.com/v1/loc?github=demo/app&ignored='',
          WriteFile (cache (snd (fetchLanguageCountsForRepo nameless_world stale demo_state)))
            True]"
proof -
  have m: "malformed_response
             (loc_api nameless_world (trace demo_state) (request_url demo_state stale))"
    by (simp add: nameless_world_def)
  have f: "fetchLanguageCountsForRepo nameless_world stale demo_state
             = fetch_fresh nameless_world stale demo_state"
    using stale_miss by (rule fetch_miss)
  have r: "fst (fetch_fresh nameless_world stale demo_state)
       = Inr (DAList.update ''undefined'' 150 DAList.empty)"
    by (simp add: fetch_fresh_def Let_def nameless_world_def)
  have c: "cache (snd (fetch_fresh nameless_world stale demo_state)) ''demo/app''
       = Some \<lparr>latestCommit = ''2024-02-01T00:00Z'',
               entry_languages = DAList.update ''undefined'' 150 DAList.empty\<rparr>"
    by (simp add: fetch_fresh_def Let_def nameless_world_def emit_def stale_def demo_repo_def)
  have old: "cache demo_state ''demo/app'' = Some demo_entry"
    by (simp add: demo_state_def)
  have d: "cache (snd (fetch_fresh nameless_world stale demo_state)) ''demo/app''
       \<noteq> cache demo_state ''demo/app''"
    by (simp add: c old demo_entry_def)
  have t: "trace (snd (fetch_fresh nameless_world stale demo_state))
       = [LocCall ''https://api.codetabs.com/v1/loc?github=demo/app&ignored='',
          WriteFile (cache (snd (fetch_fresh nameless_world stale demo_state))) True]"
    by (simp add: fetch_fresh_def Let_def nameless_world_def demo_world_def emit_def
        saveCacheToFile_def stale_url [unfolded request_url_def])
      (simp add: demo_state_def)
  from m stale_miss r c d t show ?thesis by (simp only: f) simp
qed

text \<open>
  Claim C7, for the answers on which the code throws. When the cache test fails and the request to the line counter is
  rejected, or \<^verbatim>\<open>response.data\<close> is not an array, or the array has a \<^verbatim>\<open>null\<close>
  element, \<^verbatim>\<open>fetchLanguageCountsForRepo\<close> throws to its caller: the rejection of
  axios as it is, or the \<^verbatim>\<open>TypeError\<close> of the loop. The state then differs from the
  one before only by the request in the trace: the cache is unchanged, also when records
  before the \<^verbatim>\<open>null\<close> element were already counted, and no write of the cache file
  happens.
\<close>

theorem collaborator_failure_leaves_cache:
  assumes "\<not> cache_valid s repo"
    and "throwing_response (loc_api w (trace s) (request_url s repo))"
  shows "fetchLanguageCountsForRepo w repo s =
     (Inl (case loc_api w (trace s) (request_url s repo) of
             Rejected err \<Rightarrow> AxiosError err
           | NullData \<Rightarrow> TypeError ''Cannot read properties of null (reading 'forEach')''
           | NotArray \<Rightarrow> TypeError ''response.data.forEach is not a function''
           | Array data \<Rightarrow> TypeError ''Cannot read properties of null (reading 'language')''),
      s\<lparr>trace := trace s @ [LocCall (request_url s repo)]\<rparr>)"
  using fetch_fresh_failure [OF assms(2)] assms(1) by (simp add: fetch_miss emit_def)

theorem collaborator_failure_leaves_cache_witness:
  "\<not> cache_valid demo_state stale
   \<and> throwing_response (loc_api broken_world (trace demo_state) (request_url demo_state stale))
   \<and> fetchLanguageCountsForRepo broken_world stale demo_state
        = (Inl (TypeError ''Cannot read properties of null (reading 'language')''),
           demo_state\<lparr>trace :=
             [LocCall ''https://api.codetabs.com/v1/loc?github=demo/app&ignored='']\<rparr>)"
proof -
  have f: "throwing_response
             (loc_api broken_world (trace demo_state) (request_url demo_state stale))"
    by (simp add: broken_world_def)
  have a: "loc_api broken_world (trace demo_state) (request_url demo_state stale)
             = Array [Record \<lparr>language = ''JS'', linesOfCode = 150\<rparr>, Null]"
    by (simp add: broken_world_def)
  have t: "trace demo_state @ [LocCall (request_url demo_state stale)]
             = [LocCall ''https://api.codetabs.com/v1/loc?github=demo/app&ignored='']"
    by (simp add: stale_url) (simp add: demo_state_def)
  from collaborator_failure_leaves_cache [OF stale_miss f] stale_miss f
  show ?thesis by (simp add: a t)
qed

section \<open>Saving the cache\<close>

text \<open>
  Claim C8. A successful resolution on a missing or stale entry ends with the write of the
  cache file, and the mapping written is the whole cache of the state it returns. When
  that write fails, the failure is logged with \<^verbatim>\<open>console.error\<close> and nothing else
  changes: the resolver still returns the counted languages, the entry is in the
  in-memory cache, and resolving the same repository again in the returned state answers
  from that entry, whatever the world does.
\<close>

theorem save_failure_is_swallowed:
  assumes "\<not> cache_valid s repo"
    and "loc_api w (trace s) (request_url s repo) = Array (map Record records)"
  shows "\<exists>counted s'. fetchLanguageCountsForRepo w repo s = (Inr counted, s')
     \<and> cache s' (full_name repo) =
          Some \<lparr>latestCommit = pushed_at repo, entry_languages = counted\<rparr>
     \<and> trace s' = trace s @ LocCall (request_url s repo) #
          (case writeFile w (trace s @ [LocCall (request_url s repo)]) of
             None \<Rightarrow> [WriteFile (cache s') True]
           | Some err \<Rightarrow>
               [WriteFile (cache s') False, ConsoleError (''Error saving cache file: '' @ err)])
     \<and> (\<forall>w'. fetchLanguageCountsForRepo w' repo s' = (Inr counted, s'))"
proof -
  from fetch_miss_success [OF assms] obtain counted where
    f: "fetchLanguageCountsForRepo w repo s =
      (Inr counted,
       saveCacheToFile w
         ((emit (LocCall (request_url s repo)) s)\<lparr>cache := (cache s)(full_name repo \<mapsto>
              \<lparr>latestCommit = pushed_at repo, entry_languages = counted\<rparr>)\<rparr>))"
    by blast
  define s2 where
    "s2 = (emit (LocCall (request_url s repo)) s)\<lparr>cache := (cache s)(full_name repo \<mapsto>
              \<lparr>latestCommit = pushed_at repo, entry_languages = counted\<rparr>)\<rparr>"
  define s' where "s' = saveCacheToFile w s2"
  have f': "fetchLanguageCountsForRepo w repo s = (Inr counted, s')"
    using f by (simp add: s'_def s2_def)
  have e: "cache s' (full_name repo) =
          Some \<lparr>latestCommit = pushed_at repo, entry_languages = counted\<rparr>"
    by (simp add: s'_def s2_def)
  have t2: "trace s2 = trace s @ [LocCall (request_url s repo)]"
    by (simp add: s2_def emit_def)
  have t: "trace s' = trace s @ LocCall (request_url s repo) #
          (case writeFile w (trace s @ [LocCall (request_url s repo)]) of
             None \<Rightarrow> [WriteFile (cache s') True]
           | Some err \<Rightarrow>
               [WriteFile (cache s') False, ConsoleError (''Error saving cache file: '' @ err)])"
    by (simp add: s'_def saveCacheToFile_def t2 emit_def split: option.splits)
  have "fetchLanguageCountsForRepo w' repo s' = (Inr counted, s')" for w'
    using fetch_on_valid_entry [OF e] by simp
  with f' e t show ?thesis by blast
qed

theorem save_failure_is_swallowed_witness:
  "\<not> cache_valid demo_state stale
   \<and> loc_api readonly_world (trace demo_state) (request_url demo_state stale)
        = Array (map Record demo_records)
   \<and> (\<exists>counted s'. fetchLanguageCountsForRepo readonly_world stale demo_state = (Inr counted, s')
        \<and> cache s' ''demo/app'' =
             Some \<lparr>latestCommit = ''2024-02-01T00:00Z'', entry_languages = counted\<rparr>
        \<and> trace s' =
             [LocCall ''https://api.codetabs.com/v1/loc?github=demo/app&ignored='',
              WriteFile (cache s') False,
              ConsoleError ''Error saving cache file: EACCES: permission denied'']
        \<and> (\<forall>w'. fetchLanguageCountsForRepo w' stale s' = (Inr counted, s')))"
proof -
  have b: "loc_api readonly_world (trace demo_state) (request_url demo_state stale)
        = Array (map Record demo_records)"
    by (simp add: readonly_world_def demo_world_def)
  from save_failure_is_swallowed [OF stale_miss b] obtain counted s' where
    f: "fetchLanguageCountsForRepo readonly_world stale demo_state = (Inr counted, s')"
    and e: "cache s' (full_name stale) =
          Some \<lparr>latestCommit = pushed_at stale, entry_languages = counted\<rparr>"
    and t: "trace s' = trace demo_state @ LocCall (request_url demo_state stale) #
          (case writeFile readonly_world
                  (trace demo_state @ [LocCall (request_url demo_state stale)]) of
             None \<Rightarrow> [WriteFile (cache s') True]
           | Some err \<Rightarrow>
               [WriteFile (cache s') False, ConsoleError (''Error saving cache file: '' @ err)])"
    and h: "\<forall>w'. fetchLanguageCountsForRepo w' stale s' = (Inr counted, s')"
    by blast
  have e': "cache s' ''demo/app'' =
             Some \<lparr>latestCommit = ''2024-02-01T00:00Z'', entry_languages = counted\<rparr>"
    using e by (simp add: stale_def demo_repo_def)
  have t': "trace s' =
             [LocCall ''https://api.codetabs.com/v1/loc?github=demo/app&ignored='',
              WriteFile (cache s') False,
              ConsoleError ''Error saving cache file: EACCES: permission denied'']"
    using t by (simp add: stale_url readonly_world_def) (simp add: demo_state_def)
  from stale_miss b f e' t' h show ?thesis by blast
qed

section \<open>The frame of the resolver on the cache\<close>

text \<open>
  Claim C10. Whatever the outcome, \<^verbatim>\<open>fetchLanguageCountsForRepo\<close> leaves the cache
  entry of every key other than the repository's \<^verbatim>\<open>full_name\<close> as it was. On a valid
  entry the whole cache is unchanged. On a missing or stale entry, a successful resolution
  gives exactly the old cache with the entry of \<^verbatim>\<open>full_name\<close> set to the current
  \<^verbatim>\<open>pushed_at\<close> and the returned languages.
\<close>

theorem fetch_changes_only_own_key:
  "(\<forall>k. k \<noteq> full_name repo \<longrightarrow>
        cache (snd (fetchLanguageCountsForRepo w repo s)) k = cache s k)
   \<and> (cache_valid s repo \<longrightarrow> cache (snd (fetchLanguageCountsForRepo w repo s)) = cache s)
   \<and> (\<forall>counted. \<not> cache_valid s repo \<and> fst (fetchLanguageCountsForRepo w repo s) = Inr counted
        \<longrightarrow> cache (snd (fetchLanguageCountsForRepo w repo s)) =
             (cache s)(full_name repo \<mapsto>
                \<lparr>latestCommit = pushed_at repo, entry_languages = counted\<rparr>))"
proof (cases "cache_valid s repo")
  case True
  then show ?thesis by (simp add: fetch_hit)
next
  case False
  then show ?thesis
    by (auto simp: fetch_miss fetch_fresh_cache split: sum.splits)
qed

theorem fetch_changes_only_own_key_witness:
  "''demo/lib'' \<noteq> full_name stale
   \<and> cache (snd (fetchLanguageCountsForRepo demo_world stale demo_state)) ''demo/lib''
       = Some lib_entry
   \<and> cache_valid demo_state (demo_repo ''2024-01-01T00:00Z'')
   \<and> cache (snd (fetchLanguageCountsForRepo demo_world (demo_repo ''2024-01-01T00:00Z'')
                    demo_state))
       = cache demo_state
   \<and> \<not> cache_valid demo_state stale
   \<and> (\<exists>counted. fst (fetchLanguageCountsForRepo demo_world stale demo_state) = Inr counted
        \<and> cache (snd (fetchLanguageCountsForRepo demo_world stale demo_state)) =
            (cache demo_state)(''demo/app'' \<mapsto>
               \<lparr>latestCommit = ''2024-02-01T00:00Z'', entry_languages = counted\<rparr>))"
proof -
  note miss = fetch_changes_only_own_key [of stale demo_world demo_state]
  note hit = fetch_changes_only_own_key [of "demo_repo ''2024-01-01T00:00Z''" demo_world demo_state]
  have n: "''demo/lib'' \<noteq> full_name stale"
    by (simp add: stale_def demo_repo_def)
  have v: "cache_valid demo_state (demo_repo ''2024-01-01T00:00Z'')"
    by (simp add: cache_valid_def demo_state_def demo_repo_def demo_entry_def)
  from miss n have
    "cache (snd (fetchLanguageCountsForRepo demo_world stale demo_state)) ''demo/lib''
       = cache demo_state ''demo/lib''"
    by blast
  then have other:
    "cache (snd (fetchLanguageCountsForRepo demo_world stale demo_state)) ''demo/lib''
       = Some lib_entry"
    by (simp add: demo_state_def)
  from hit v have same:
    "cache (snd (fetchLanguageCountsForRepo demo_world (demo_repo ''2024-01-01T00:00Z'')
                    demo_state))
       = cache demo_state"
    by blast
  from fetch_miss_success [OF stale_miss demo_world_loc] obtain counted where
    "fst (fetchLanguageCountsForRepo demo_world stale demo_state) = Inr counted"
    by fastforce
  moreover from this miss stale_miss have
    "cache (snd (fetchLanguageCountsForRepo demo_world stale demo_state)) =
       (cache demo_state)(full_name stale \<mapsto>
          \<lparr>latestCommit = pushed_at stale, entry_languages = counted\<rparr>)"
    by blast
  then have "cache (snd (fetchLanguageCountsForRepo demo_world stale demo_state)) =
       (cache demo_state)(''demo/app'' \<mapsto>
          \<lparr>latestCommit = ''2024-02-01T00:00Z'', entry_languages = counted\<rparr>)"
    by (simp add: stale_def demo_repo_def)
  ultimately show ?thesis using n other v same stale_miss by blast
qed

section \<open>Aggregation\<close>



section \<open>Repositories on the blacklist\<close>

text \<open>
  Claim C5. A repository whose \<^verbatim>\<open>name\<close> is in \<^verbatim>\<open>blacklist.repos\<close> can be taken
  out of the list given to \<^verbatim>\<open>aggregateLanguageCounts\<close> without changing the result or
  the final state: its presence causes no event (no resolver call, no request) and adds no
  count. Yet \<^verbatim>\<open>countLinesOfCode\<close> with that repository's name, when the listing has
  it, is the resolver's answer for it after the listing request: the single-repository
  path does not read \<^verbatim>\<open>blacklist.repos\<close>.
\<close>

theorem excluded_repo_is_skipped:
  assumes "name r \<in> set (repos (blacklist s))"
  shows "aggregateLanguageCounts w (before @ r # after) s
           = aggregateLanguageCounts w (before @ after) s
     \<and> (\<forall>rs. repos_api w (trace s) username = Inr rs
              \<and> find (\<lambda>x. name x = name r) rs = Some r \<and> name r \<noteq> []
          \<longrightarrow> countLinesOfCode w username (Some (name r)) s
                = fetchLanguageCountsForRepo w r (emit (ReposCall username) s))"
  using assms
  by (simp add: aggregateLanguageCounts_def aggregate_skips_excluded
      countLinesOfCode_def getRepositories_def)

theorem excluded_repo_is_skipped_witness:
  "name lib_repo \<in> set (repos (blacklist excluding_state))
   \<and> aggregateLanguageCounts demo_world [demo_repo ''2024-01-01T00:00Z'', lib_repo, web_repo]
        excluding_state
     = aggregateLanguageCounts demo_world [demo_repo ''2024-01-01T00:00Z'', web_repo]
        excluding_state
   \<and> repos_api demo_world (trace excluding_state) ''demo'' = Inr demo_repos
   \<and> find (\<lambda>x. name x = name lib_repo) demo_repos = Some lib_repo
   \<and> name lib_repo \<noteq> []
   \<and> countLinesOfCode demo_world ''demo'' (Some ''lib'') excluding_state
       = (Inr (entry_languages lib_entry),
          excluding_state\<lparr>trace := [ReposCall ''demo'']\<rparr>)"
proof -
  note t = excluded_repo_is_skipped [OF excluding_names, of demo_world
      "[demo_repo ''2024-01-01T00:00Z'']" "[web_repo]" "''demo''"]
  have a: "repos_api demo_world (trace excluding_state) ''demo'' = Inr demo_repos"
    by (simp add: demo_world_def)
  have b: "find (\<lambda>x. name x = name lib_repo) demo_repos = Some lib_repo"
    by (simp add: demo_repos_def lib_repo_def demo_repo_def)
  have c: "name lib_repo \<noteq> []" by (simp add: lib_repo_def)
  from t a b c have
    "countLinesOfCode demo_world ''demo'' (Some (name lib_repo)) excluding_state
       = fetchLanguageCountsForRepo demo_world lib_repo (emit (ReposCall ''demo'') excluding_state)"
    by blast
  also have "\<dots> = (Inr (entry_languages lib_entry), emit (ReposCall ''demo'') excluding_state)"
    by (rule fetch_on_valid_entry)
      (simp_all add: excluding_state_def demo_state_def lib_repo_def lib_entry_def emit_def)
  finally have single:
    "countLinesOfCode demo_world ''demo'' (Some ''lib'') excluding_state
       = (Inr (entry_languages lib_entry), excluding_state\<lparr>trace := [ReposCall ''demo'']\<rparr>)"
    by (simp add: lib_repo_def emit_def excluding_state_def demo_state_def)
  from t have "aggregateLanguageCounts demo_world
        ([demo_repo ''2024-01-01T00:00Z''] @ lib_repo # [web_repo]) excluding_state
     = aggregateLanguageCounts demo_world ([demo_repo ''2024-01-01T00:00Z''] @ [web_repo])
        excluding_state"
    by blast
  then have "aggregateLanguageCounts demo_world
        [demo_repo ''2024-01-01T00:00Z'', lib_repo, web_repo] excluding_state
     = aggregateLanguageCounts demo_world [demo_repo ''2024-01-01T00:00Z'', web_repo]
        excluding_state"
    by simp
  with excluding_names a b c single show ?thesis by blast
qed

section \<open>The rate-limit test of the routes\<close>

text \<open>
  Claim C6. When the rate-limit endpoint reports \<^verbatim>\<open>remaining\<close> equal to \<open>0\<close>, both
  routes answer with status 429, and the only event of the request is the rate-limit call:
  the repository listing is not requested and no repository is resolved.
\<close>

theorem exhausted_budget_answers_429:
  assumes "rate_limit_api w (trace s) = Inr 0"
  shows "get_languages_username w username s
           = (rate_limited, s\<lparr>trace := trace s @ [RateLimitCall]\<rparr>)
     \<and> get_languages_username_repoName w username repoName s
           = (rate_limited, s\<lparr>trace := trace s @ [RateLimitCall]\<rparr>)
     \<and> status rate_limited = 429"
  using assms
  by (simp add: get_languages_username_def get_languages_username_repoName_def
      getRateLimit_def emit_def rate_limited_def)

theorem exhausted_budget_answers_429_witness:
  "rate_limit_api exhausted_world (trace demo_state) = Inr 0
   \<and> get_languages_username exhausted_world ''demo'' demo_state
        = (rate_limited, demo_state\<lparr>trace := [RateLimitCall]\<rparr>)
   \<and> get_languages_username_repoName exhausted_world ''demo'' ''app'' demo_state
        = (rate_limited, demo_state\<lparr>trace := [RateLimitCall]\<rparr>)
   \<and> status rate_limited = 429"
proof -
  have a: "rate_limit_api exhausted_world (trace demo_state) = Inr 0"
    by (simp add: exhausted_world_def)
  have t: "trace demo_state @ [RateLimitCall] = [RateLimitCall]"
    by (simp add: demo_state_def)
  from exhausted_budget_answers_429 [OF a, of "''demo''" "''app''"] a
  show ?thesis by (simp add: t)
qed

section \<open>A repository name that the listing does not have\<close>

text \<open>
  Claim C9. When the rate limit is not exhausted, the listing succeeds and none of the
  listed repositories has the requested \<^verbatim>\<open>name\<close>, \<^verbatim>\<open>countLinesOfCode\<close> throws
  the error \<^verbatim>\<open>Repository <name> not found\<close>, and the route answers with status 500 and
  that message in the body; no repository is resolved.
\<close>

theorem unknown_repository_answers_500:
  assumes "rate_limit_api w (trace s) = Inr remaining"
    and "remaining \<noteq> 0"
    and "repos_api w (trace s @ [RateLimitCall]) username = Inr rs"
    and "repoName \<notin> name ` set rs"
    and "repoName \<noteq> []"
  shows "countLinesOfCode w username (Some repoName) (s\<lparr>trace := trace s @ [RateLimitCall]\<rparr>)
           = (Inl (Error (''Repository '' @ repoName @ '' not found'')),
              s\<lparr>trace := trace s @ [RateLimitCall, ReposCall username]\<rparr>)
     \<and> get_languages_username_repoName w username repoName s
           = (\<lparr>status = 500, body = ErrorBody (''Repository '' @ repoName @ '' not found'')\<rparr>,
              s\<lparr>trace := trace s @ [RateLimitCall, ReposCall username]\<rparr>)"
proof -
  from assms(4) have none: "find (\<lambda>r. name r = repoName) rs = None"
    by (auto simp: find_None_iff)
  have c: "countLinesOfCode w username (Some repoName) (s\<lparr>trace := trace s @ [RateLimitCall]\<rparr>)
           = (Inl (Error (''Repository '' @ repoName @ '' not found'')),
              s\<lparr>trace := trace s @ [RateLimitCall, ReposCall username]\<rparr>)"
    using assms(3,5) none by (simp add: countLinesOfCode_def getRepositories_def emit_def)
  have "get_languages_username_repoName w username repoName s
           = respond (countLinesOfCode w username (Some repoName)
                        (s\<lparr>trace := trace s @ [RateLimitCall]\<rparr>))"
    using assms(1,2) by (simp add: get_languages_username_repoName_def getRateLimit_def emit_def)
  with c show ?thesis by (simp add: respond_def)
qed

theorem unknown_repository_answers_500_witness:
  "rate_limit_api demo_world (trace demo_state) = Inr 10
   \<and> (10::int) \<noteq> 0
   \<and> repos_api demo_world (trace demo_state @ [RateLimitCall]) ''demo'' = Inr demo_repos
   \<and> ''nope'' \<notin> name ` set demo_repos
   \<and> ''nope'' \<noteq> []
   \<and> get_languages_username_repoName demo_world ''demo'' ''nope'' demo_state
        = (\<lparr>status = 500, body = ErrorBody ''Repository nope not found''\<rparr>,
           demo_state\<lparr>trace := [RateLimitCall, ReposCall ''demo'']\<rparr>)"
proof -
  have a: "rate_limit_api demo_world (trace demo_state) = Inr 10"
    by (simp add: demo_world_def)
  have b: "(10::int) \<noteq> 0" by simp
  have c: "repos_api demo_world (trace demo_state @ [RateLimitCall]) ''demo'' = Inr demo_repos"
    by (simp add: demo_world_def)
  have d: "''nope'' \<notin> name ` set demo_repos"
    by (simp add: demo_repos_def demo_repo_def lib_repo_def web_repo_def)
  have e: "''nope'' \<noteq> []" by simp
  have t: "trace demo_state @ [RateLimitCall, ReposCall ''demo'']
             = [RateLimitCall, ReposCall ''demo'']"
    by (simp add: demo_state_def)
  from unknown_repository_answers_500 [OF a b c d e] a c d
  show ?thesis by (simp add: t)
qed

section \<open>Loading a malformed blacklist document\<close>

text \<open>
  Claim C3 asks that a blacklist document that is present but malformed (not an object, or
  without one of the three array members) is reported with \<^verbatim>\<open>console.error\<close> and
  replaced by the empty defaults. \<^verbatim>\<open>loadDataFromFile\<close> tests only that the parsed
  value is a truthy object. On a document of the earlier format, an object without
  \<^verbatim>\<open>languages\<close>, it returns the document itself as the blacklist and logs nothing; on
  a document that is a number it returns the defaults but logs nothing either.
\<close>

theorem malformed_blacklist_not_reported:
  "\<not> well_formed_blacklist old_format_blacklist
   \<and> load_blacklist BLACKLIST_FILE (Document old_format_blacklist) write_error
       = \<lparr>returned = Inr old_format_blacklist,
          file_after = Document old_format_blacklist, logged = []\<rparr>
   \<and> old_format_blacklist \<noteq> default_blacklist
   \<and> \<not> well_formed_blacklist (JNumber 5)
   \<and> load_blacklist BLACKLIST_FILE (Document (JNumber 5)) write_error
       = \<lparr>returned = Inr default_blacklist, file_after = Document (JNumber 5), logged = []\<rparr>"
  by (simp add: load_blacklist_def loadDataFromFile_def old_format_blacklist_def
      default_blacklist_def well_formed_blacklist_def array_member_def)

end
